theory Spec2Isabelle
  imports Complex_Main
begin

section \<open>HRV percentile analysis (hrv\_analysis.py)\<close>

text \<open>
  The three functions of the module are embedded as HOL functions.  Python floats are
  read as real numbers, Python integers as \<open>int\<close>, strings as \<open>string\<close>, and
  the nested dictionary literals as association lists looked up with \<open>map_of\<close>.
  A raised exception is the left summand of the result type; a caught exception is a
  branch of the model.  The functions of \<open>scipy.stats\<close> that the module calls are
  not part of the module: they are the fields of a record that every function takes as
  its first argument.  The text that the module formats from its numbers
  (\<open>:.1f\<close> and the surrounding sentence) is kept as a record of the interpolated
  values.  A property that depends on the double-precision distribution function rather
  than on the exact one is stated on a library record with that behaviour.
\<close>

subsection \<open>Python values, exceptions and subscripts\<close>

datatype py_exception = KeyError | TypeError | ValueError | ZeroDivisionError

type_synonym 'a py = "py_exception + 'a"

definition py_bind :: "'a py \<Rightarrow> ('a \<Rightarrow> 'b py) \<Rightarrow> 'b py" where
  "py_bind m f = (case m of Inl e \<Rightarrow> Inl e | Inr v \<Rightarrow> f v)"

text \<open>\<open>d[k]\<close> on a dictionary: KeyError when the key is absent.\<close>

definition getitem :: "('k \<times> 'v) list \<Rightarrow> 'k \<Rightarrow> 'v py" where
  "getitem d k = (case map_of d k of None \<Rightarrow> Inl KeyError | Some v \<Rightarrow> Inr v)"

text \<open>
  The values stored in a group record of \<open>get_hrv_percentile\<close>: a dictionary
  \<open>{'mean': .., 'sd': ..}\<close> under a metric name, an integer under \<open>'n'\<close>.
\<close>

datatype group_value = PyDict "(string \<times> real) list" | PyInt int

text \<open>\<open>v[k]\<close> on such a value: an integer is not subscriptable (TypeError).\<close>

definition subscript :: "group_value \<Rightarrow> string \<Rightarrow> real py" where
  "subscript v k = (case v of PyDict d \<Rightarrow> getitem d k | PyInt i \<Rightarrow> Inl TypeError)"

text \<open>\<open>math.sqrt(n)\<close>: TypeError on a dictionary, ValueError on a negative number.\<close>

definition math_sqrt :: "group_value \<Rightarrow> real py" where
  "math_sqrt v =
     (case v of
        PyDict d \<Rightarrow> Inl TypeError
      | PyInt i \<Rightarrow> if i < 0 then Inl ValueError else Inr (sqrt (real_of_int i)))"

text \<open>Float division: ZeroDivisionError on a zero divisor.\<close>

definition py_div :: "real \<Rightarrow> real \<Rightarrow> real py" where
  "py_div a b = (if b = 0 then Inl ZeroDivisionError else Inr (a / b))"

text \<open>
  \<open>str.lower()\<close> on the ASCII letters.  (Python also lowers letters outside ASCII;
  none of them is mapped into the ASCII keys compared against below.)
\<close>

definition lower_char :: "char \<Rightarrow> char" where
  "lower_char c =
     (case map_of (zip ''ABCDEFGHIJKLMNOPQRSTUVWXYZ'' ''abcdefghijklmnopqrstuvwxyz'') c of
        Some d \<Rightarrow> d
      | None \<Rightarrow> c)"

definition lower :: "string \<Rightarrow> string" where
  "lower s = map lower_char s"

subsection \<open>The functions imported from scipy.stats\<close>

text \<open>
  \<open>st.norm.cdf\<close>, \<open>st.norm.ppf\<close> and \<open>st.t.ppf\<close> (quantile and degrees of
  freedom).
\<close>

record scipy_stats =
  norm_cdf :: "real \<Rightarrow> real"
  norm_ppf :: "real \<Rightarrow> real"
  t_ppf :: "real \<Rightarrow> real \<Rightarrow> real"

subsection \<open>The normative tables\<close>

text \<open>The table of \<open>get_hrv_percentile\<close>, with the sample size of each group.\<close>

definition hrv_norms :: "(string \<times> (string \<times> (string \<times> group_value) list) list) list" where
  "hrv_norms =
    [(''female'',
       [(''25-34'', [(''sdNN'', PyDict [(''mean'', 45.4), (''sd'', 18.0)]),
                     (''RMSSD'', PyDict [(''mean'', 36.1), (''sd'', 18.4)]),
                     (''HF'', PyDict [(''mean'', 161), (''sd'', 167)]),
                     (''n'', PyInt 208)]),
        (''35-44'', [(''sdNN'', PyDict [(''mean'', 42.1), (''sd'', 16.8)]),
                     (''RMSSD'', PyDict [(''mean'', 30.7), (''sd'', 15.1)]),
                     (''HF'', PyDict [(''mean'', 121), (''sd'', 145)]),
                     (''n'', PyInt 259)]),
        (''45-54'', [(''sdNN'', PyDict [(''mean'', 36.6), (''sd'', 14.7)]),
                     (''RMSSD'', PyDict [(''mean'', 24.5), (''sd'', 12.3)]),
                     (''HF'', PyDict [(''mean'', 62), (''sd'', 83)]),
                     (''n'', PyInt 158)]),
        (''55-64'', [(''sdNN'', PyDict [(''mean'', 32.2), (''sd'', 13.5)]),
                     (''RMSSD'', PyDict [(''mean'', 20.3), (''sd'', 10.8)]),
                     (''HF'', PyDict [(''mean'', 35), (''sd'', 53)]),
                     (''n'', PyInt 95)]),
        (''65-74'', [(''sdNN'', PyDict [(''mean'', 31.6), (''sd'', 13.6)]),
                     (''RMSSD'', PyDict [(''mean'', 19.4), (''sd'', 10.1)]),
                     (''HF'', PyDict [(''mean'', 29), (''sd'', 38)]),
                     (''n'', PyInt 62)])]),
     (''male'',
       [(''25-34'', [(''sdNN'', PyDict [(''mean'', 49.9), (''sd'', 19.8)]),
                     (''RMSSD'', PyDict [(''mean'', 36.2), (''sd'', 18.1)]),
                     (''HF'', PyDict [(''mean'', 133), (''sd'', 174)]),
                     (''n'', PyInt 330)]),
        (''35-44'', [(''sdNN'', PyDict [(''mean'', 44.8), (''sd'', 18.1)]),
                     (''RMSSD'', PyDict [(''mean'', 30.6), (''sd'', 15.4)]),
                     (''HF'', PyDict [(''mean'', 89), (''sd'', 118)]),
                     (''n'', PyInt 292)]),
        (''45-54'', [(''sdNN'', PyDict [(''mean'', 41.3), (''sd'', 17.6)]),
                     (''RMSSD'', PyDict [(''mean'', 26.8), (''sd'', 13.7)]),
                     (''HF'', PyDict [(''mean'', 41), (''sd'', 49)]),
                     (''n'', PyInt 235)]),
        (''55-64'', [(''sdNN'', PyDict [(''mean'', 38.3), (''sd'', 17.0)]),
                     (''RMSSD'', PyDict [(''mean'', 23.4), (''sd'', 12.0)]),
                     (''HF'', PyDict [(''mean'', 29), (''sd'', 38)]),
                     (''n'', PyInt 183)]),
        (''65-74'', [(''sdNN'', PyDict [(''mean'', 34.9), (''sd'', 15.9)]),
                     (''RMSSD'', PyDict [(''mean'', 21.1), (''sd'', 11.0)]),
                     (''HF'', PyDict [(''mean'', 22), (''sd'', 29)]),
                     (''n'', PyInt 84)])])]"

text \<open>
  The table of \<open>get_5th_percentile_value\<close> and of \<open>get_normative_range\<close>: the two
  literals are the same text, and neither has the key \<open>'n'\<close>.
\<close>

definition hrv_norms_range :: "(string \<times> (string \<times> (string \<times> (string \<times> real) list) list) list) list" where
  "hrv_norms_range =
    [(''female'',
       [(''25-34'', [(''sdNN'', [(''mean'', 45.4), (''sd'', 18.0)]),
                     (''RMSSD'', [(''mean'', 36.1), (''sd'', 18.4)]),
                     (''HF'', [(''mean'', 161), (''sd'', 167)])]),
        (''35-44'', [(''sdNN'', [(''mean'', 42.1), (''sd'', 16.8)]),
                     (''RMSSD'', [(''mean'', 30.7), (''sd'', 15.1)]),
                     (''HF'', [(''mean'', 121), (''sd'', 145)])]),
        (''45-54'', [(''sdNN'', [(''mean'', 36.6), (''sd'', 14.7)]),
                     (''RMSSD'', [(''mean'', 24.5), (''sd'', 12.3)]),
                     (''HF'', [(''mean'', 62), (''sd'', 83)])]),
        (''55-64'', [(''sdNN'', [(''mean'', 32.2), (''sd'', 13.5)]),
                     (''RMSSD'', [(''mean'', 20.3), (''sd'', 10.8)]),
                     (''HF'', [(''mean'', 35), (''sd'', 53)])]),
        (''65-74'', [(''sdNN'', [(''mean'', 31.6), (''sd'', 13.6)]),
                     (''RMSSD'', [(''mean'', 19.4), (''sd'', 10.1)]),
                     (''HF'', [(''mean'', 29), (''sd'', 38)])])]),
     (''male'',
       [(''25-34'', [(''sdNN'', [(''mean'', 49.9), (''sd'', 19.8)]),
                     (''RMSSD'', [(''mean'', 36.2), (''sd'', 18.1)]),
                     (''HF'', [(''mean'', 133), (''sd'', 174)])]),
        (''35-44'', [(''sdNN'', [(''mean'', 44.8), (''sd'', 18.1)]),
                     (''RMSSD'', [(''mean'', 30.6), (''sd'', 15.4)]),
                     (''HF'', [(''mean'', 89), (''sd'', 118)])]),
        (''45-54'', [(''sdNN'', [(''mean'', 41.3), (''sd'', 17.6)]),
                     (''RMSSD'', [(''mean'', 26.8), (''sd'', 13.7)]),
                     (''HF'', [(''mean'', 41), (''sd'', 49)])]),
        (''55-64'', [(''sdNN'', [(''mean'', 38.3), (''sd'', 17.0)]),
                     (''RMSSD'', [(''mean'', 23.4), (''sd'', 12.0)]),
                     (''HF'', [(''mean'', 29), (''sd'', 38)])]),
        (''65-74'', [(''sdNN'', [(''mean'', 34.9), (''sd'', 15.9)]),
                     (''RMSSD'', [(''mean'', 21.1), (''sd'', 11.0)]),
                     (''HF'', [(''mean'', 22), (''sd'', 29)])])])]"

subsection \<open>Key normalisation\<close>

text \<open>The \<open>if\<close>/\<open>elif\<close> chain on the age, the same in the three functions.\<close>

definition age_group :: "int \<Rightarrow> string option" where
  "age_group age =
     (if 25 \<le> age \<and> age \<le> 34 then Some ''25-34''
      else if 35 \<le> age \<and> age \<le> 44 then Some ''35-44''
      else if 45 \<le> age \<and> age \<le> 54 then Some ''45-54''
      else if 55 \<le> age \<and> age \<le> 64 then Some ''55-64''
      else if 65 \<le> age \<and> age \<le> 74 then Some ''65-74''
      else None)"

definition metric_mapping :: "(string \<times> string) list" where
  "metric_mapping = [(''sdnn'', ''sdNN''), (''rmssd'', ''RMSSD''), (''hf'', ''HF'')]"

text \<open>\<open>metric_mapping.get(hrv_metric.lower(), hrv_metric)\<close>\<close>

definition normalize_metric :: "string \<Rightarrow> string" where
  "normalize_metric hrv_metric =
     (case map_of metric_mapping (lower hrv_metric) of
        Some m \<Rightarrow> m
      | None \<Rightarrow> hrv_metric)"

subsection \<open>get\_hrv\_percentile\<close>

definition age_error :: string where
  "age_error = ''Error: Age is outside the study's range (25-74 years).''"

definition gender_error :: string where
  "gender_error = ''Error: Gender must be 'male' or 'female'.''"

definition metric_error :: "string \<Rightarrow> string \<Rightarrow> string \<Rightarrow> string" where
  "metric_error hrv_metric gender grp =
     ''Error: The metric '' @ [CHR 0x27] @ hrv_metric @ [CHR 0x27]
       @ '' is not available for the '' @ gender @ '' '' @ grp
       @ '' age group in this script. Please add it from the source paper.''"

definition sd_error :: string where
  "sd_error = ''Error: Standard deviation is zero, cannot calculate percentile.''"

text \<open>The values interpolated into the result text of a successful call.\<close>

record report =
  rep_age :: int
  rep_gender :: string
  rep_metric :: string
  rep_value :: real
  percentile :: real
  percentile_lower :: real
  percentile_upper :: real
  sample_size :: int
  reliability :: string
  small_sample_warning :: bool

datatype outcome = Message string | Report report

text \<open>The body of the \<open>try\<close> block: the five subscripts, in the order of the source.\<close>

definition lookup_group :: "string \<Rightarrow> string \<Rightarrow> string \<Rightarrow> (real \<times> real \<times> group_value) py" where
  "lookup_group gender grp normalized_metric =
     py_bind (getitem hrv_norms gender) (\<lambda>by_age.
     py_bind (getitem by_age grp) (\<lambda>group_data.
     py_bind (getitem group_data normalized_metric) (\<lambda>metric_data.
     py_bind (subscript metric_data ''mean'') (\<lambda>mean.
     py_bind (subscript metric_data ''sd'') (\<lambda>sd.
     py_bind (getitem group_data ''n'') (\<lambda>n.
     Inr (mean, sd, n)))))))"

text \<open>The reliability assessment on the sample size.\<close>

definition reliability_of :: "int \<Rightarrow> string" where
  "reliability_of n =
     (if n < 50 then ''Low''
      else if n < 100 then ''Moderate''
      else if n < 200 then ''Good''
      else ''High'')"

text \<open>The computation after the zero check on the standard deviation.\<close>

definition estimate :: "scipy_stats \<Rightarrow> int \<Rightarrow> string \<Rightarrow> string \<Rightarrow> real \<Rightarrow> real \<Rightarrow> real \<Rightarrow> group_value \<Rightarrow> outcome py" where
  "estimate st age gender hrv_metric user_value mean sd n =
     (let z_score = (user_value - mean) / sd;
          pct = norm_cdf st z_score * 100
      in py_bind (math_sqrt n) (\<lambda>root.
         py_bind (py_div sd root) (\<lambda>sem.
           (case n of
              PyDict d \<Rightarrow> Inl TypeError
            | PyInt k \<Rightarrow>
                (let df = k - 1;
                     t_critical = t_ppf st 0.975 (real_of_int df);
                     ci_lower_mean = mean - t_critical * sem;
                     ci_upper_mean = mean + t_critical * sem;
                     z_lower = (user_value - ci_upper_mean) / sd;
                     z_upper = (user_value - ci_lower_mean) / sd;
                     pct_lower = norm_cdf st z_lower * 100;
                     pct_upper = norm_cdf st z_upper * 100
                 in Inr (Report \<lparr>rep_age = age, rep_gender = gender, rep_metric = hrv_metric,
                      rep_value = user_value, percentile = pct,
                      percentile_lower = pct_lower, percentile_upper = pct_upper,
                      sample_size = k, reliability = reliability_of k,
                      small_sample_warning = (k < 100)\<rparr>))))))"

definition get_hrv_percentile :: "scipy_stats \<Rightarrow> int \<Rightarrow> string \<Rightarrow> string \<Rightarrow> real \<Rightarrow> outcome py" where
  "get_hrv_percentile st age gender0 hrv_metric user_value =
     (case age_group age of
        None \<Rightarrow> Inr (Message age_error)
      | Some grp \<Rightarrow>
          (let gender = lower gender0 in
           if gender \<notin> set [''male'', ''female''] then Inr (Message gender_error)
           else
             (let normalized_metric = normalize_metric hrv_metric in
              case lookup_group gender grp normalized_metric of
                Inl KeyError \<Rightarrow> Inr (Message (metric_error hrv_metric gender grp))
              | Inl e \<Rightarrow> Inl e
              | Inr (mean, sd, n) \<Rightarrow>
                  if sd = 0 then Inr (Message sd_error)
                  else estimate st age gender hrv_metric user_value mean sd n)))"

subsection \<open>get\_5th\_percentile\_value and get\_normative\_range\<close>

text \<open>\<open>hrv_norms[gender][age_group][normalized_metric]\<close> on the table without sizes.\<close>

definition lookup_entry :: "string \<Rightarrow> string \<Rightarrow> string \<Rightarrow> (string \<times> real) list py" where
  "lookup_entry gender grp normalized_metric =
     py_bind (getitem hrv_norms_range gender) (\<lambda>by_age.
     py_bind (getitem by_age grp) (\<lambda>group_data.
     getitem group_data normalized_metric))"

definition get_5th_percentile_value :: "scipy_stats \<Rightarrow> int \<Rightarrow> string \<Rightarrow> string \<Rightarrow> real option py" where
  "get_5th_percentile_value st age gender0 hrv_metric =
     (case age_group age of
        None \<Rightarrow> Inr None
      | Some grp \<Rightarrow>
          (let gender = lower gender0;
               normalized_metric = normalize_metric hrv_metric;
               body =
                 py_bind (lookup_entry gender grp normalized_metric) (\<lambda>data.
                   (let z_score_5th = norm_ppf st 0.05 in
                    py_bind (getitem data ''mean'') (\<lambda>m.
                    py_bind (getitem data ''sd'') (\<lambda>s.
                    Inr (max 0 (m + z_score_5th * s))))))
           in case body of
                Inl KeyError \<Rightarrow> Inr None
              | Inl e \<Rightarrow> Inl e
              | Inr v \<Rightarrow> Inr (Some v)))"

text \<open>The values interpolated into the text that \<open>get_normative_range\<close> returns.\<close>

record normative_range =
  range_metric :: string
  p5 :: real
  p95 :: real

definition get_normative_range :: "scipy_stats \<Rightarrow> int \<Rightarrow> string \<Rightarrow> string \<Rightarrow> normative_range option py" where
  "get_normative_range st age gender0 hrv_metric =
     (case age_group age of
        None \<Rightarrow> Inr None
      | Some grp \<Rightarrow>
          (let gender = lower gender0;
               normalized_metric = normalize_metric hrv_metric;
               body =
                 py_bind (lookup_entry gender grp normalized_metric) (\<lambda>data.
                 py_bind (getitem data ''mean'') (\<lambda>mean.
                 py_bind (getitem data ''sd'') (\<lambda>sd.
                   (let z_5th = norm_ppf st 0.05;
                        z_95th = norm_ppf st 0.95;
                        percentile_5th = mean + z_5th * sd;
                        percentile_95th = mean + z_95th * sd;
                        percentile_5th' =
                          (if normalized_metric \<in> set [''RMSSD'', ''HF'']
                           then (let min_threshold = (if normalized_metric = ''RMSSD'' then 1.0 else 5.0)
                                 in max min_threshold percentile_5th)
                           else max 0.1 percentile_5th)
                    in Inr \<lparr>range_metric = hrv_metric, p5 = percentile_5th',
                            p95 = percentile_95th\<rparr>))))
           in case body of
                Inl KeyError \<Rightarrow> Inr None
              | Inl e \<Rightarrow> Inl e
              | Inr r \<Rightarrow> Inr (Some r)))"

subsection \<open>Vocabulary of the properties\<close>

text \<open>
  A key is valid when the age falls in one of the five bands, the gender lowers to
  \<open>male\<close> or \<open>female\<close>, and the metric name lowers to one of the three names of
  \<open>metric_mapping\<close>.
\<close>

definition valid_key :: "int \<Rightarrow> string \<Rightarrow> string \<Rightarrow> bool" where
  "valid_key age gender hrv_metric \<longleftrightarrow>
     25 \<le> age \<and> age \<le> 74 \<and> lower gender \<in> {''male'', ''female''}
     \<and> lower hrv_metric \<in> {''sdnn'', ''rmssd'', ''hf''}"

text \<open>
  The distribution function of the standard normal distribution over the reals, as the
  power series of \<open>1/2 + (\<integral>\<^sub>0\<^sup>x exp (- t\<^sup>2 / 2) dt) / sqrt (2 pi)\<close>.
\<close>

definition Phi_coeff :: "nat \<Rightarrow> real" where
  "Phi_coeff n =
     (if even n then 0
      else (- 1) ^ ((n - 1) div 2) / (2 ^ ((n - 1) div 2) * fact ((n - 1) div 2) * real n))"

definition Phi :: "real \<Rightarrow> real" where
  "Phi x = 1 / 2 + (\<Sum>n. Phi_coeff n * x ^ n) / sqrt (2 * pi)"

text \<open>
  An instance of the library record on which the functions are run at concrete inputs:
  the exact distribution function, and for the two quantile functions the constants
  that the source's comments give for the quantiles it asks for (\<open>-1.645\<close> and
  \<open>1.645\<close>), with \<open>1.97\<close> for the Student quantile.
\<close>

definition sample_stats :: scipy_stats where
  "sample_stats =
     \<lparr>norm_cdf = Phi,
      norm_ppf = (\<lambda>q. if q < 1 / 2 then - 1.645 else 1.645),
      t_ppf = (\<lambda>q df. 1.97)\<rparr>"



text \<open>
  The lower floor of the normative range by (normalised) metric: 1.0 for RMSSD, 5.0 for
  HF, 0.1 for every other metric.
\<close>

definition range_floor :: "string \<Rightarrow> real" where
  "range_floor normalized_metric =
     (if normalized_metric = ''RMSSD'' then 1.0
      else if normalized_metric = ''HF'' then 5.0
      else 0.1)"

section \<open>Reading the tables\<close>

lemma age_group_None_iff: "age_group age = None \<longleftrightarrow> age < 25 \<or> 74 < age"
  by (auto simp: age_group_def)

lemma age_group_Some:
  assumes "25 \<le> age" "age \<le> 74"
  shows "\<exists>grp. age_group age = Some grp
     \<and> grp \<in> {''25-34'', ''35-44'', ''45-54'', ''55-64'', ''65-74''}"
  using assms by (auto simp: age_group_def)

lemma lower_canonical:
  "lower ''sdNN'' = ''sdnn''" "lower ''RMSSD'' = ''rmssd''" "lower ''HF'' = ''hf''"
  by (simp_all add: lower_def lower_char_def)

lemma normalize_metric_known:
  assumes "lower m \<in> {''sdnn'', ''rmssd'', ''hf''}"
  shows "normalize_metric m \<in> {''sdNN'', ''RMSSD'', ''HF''}"
  using assms by (auto simp: normalize_metric_def metric_mapping_def)

lemma normalize_metric_other:
  assumes "lower m \<notin> {''sdnn'', ''rmssd'', ''hf''}"
  shows "normalize_metric m = m" and "m \<noteq> ''sdNN''" and "m \<noteq> ''RMSSD''" and "m \<noteq> ''HF''"
  using assms lower_canonical by (auto simp: normalize_metric_def metric_mapping_def)

lemma lookup_group_valid:
  assumes "g \<in> {''male'', ''female''}" "grp \<in> {''25-34'', ''35-44'', ''45-54'', ''55-64'', ''65-74''}"
    and "m \<in> {''sdNN'', ''RMSSD'', ''HF''}"
  shows "case lookup_group g grp m of Inr (mean, sd, PyInt n) \<Rightarrow> 0 < sd \<and> 62 \<le> n | _ \<Rightarrow> False"
  using assms
  by (elim insertE emptyE; simp add: lookup_group_def hrv_norms_def getitem_def py_bind_def subscript_def)

lemma lookup_group_other:
  assumes "g \<in> {''male'', ''female''}" "grp \<in> {''25-34'', ''35-44'', ''45-54'', ''55-64'', ''65-74''}"
    and "m \<noteq> ''sdNN''" "m \<noteq> ''RMSSD''" "m \<noteq> ''HF''" "m \<noteq> ''n''"
  shows "lookup_group g grp m = Inl KeyError"
  using assms
  by (elim insertE emptyE; simp add: lookup_group_def hrv_norms_def getitem_def py_bind_def subscript_def)

lemma lookup_group_n:
  assumes "g \<in> {''male'', ''female''}" "grp \<in> {''25-34'', ''35-44'', ''45-54'', ''55-64'', ''65-74''}"
  shows "lookup_group g grp ''n'' = Inl TypeError"
  using assms
  by (elim insertE emptyE; simp add: lookup_group_def hrv_norms_def getitem_def py_bind_def subscript_def)

lemma lookup_entry_valid:
  assumes "g \<in> {''male'', ''female''}" "grp \<in> {''25-34'', ''35-44'', ''45-54'', ''55-64'', ''65-74''}"
    and "m \<in> {''sdNN'', ''RMSSD'', ''HF''}"
  shows "case lookup_entry g grp m of
           Inr d \<Rightarrow> (case (getitem d ''mean'', getitem d ''sd'') of
                       (Inr mean, Inr sd) \<Rightarrow> 0 < sd \<and> 19 < mean
                     | _ \<Rightarrow> False)
         | Inl e \<Rightarrow> False"
  using assms
  by (elim insertE emptyE; simp add: lookup_entry_def hrv_norms_range_def getitem_def py_bind_def)

lemma lookup_entry_no_metric:
  assumes "grp \<in> {''25-34'', ''35-44'', ''45-54'', ''55-64'', ''65-74''}"
    and "m \<noteq> ''sdNN''" "m \<noteq> ''RMSSD''" "m \<noteq> ''HF''"
  shows "lookup_entry g grp m = Inl KeyError"
proof (cases "g \<in> {''male'', ''female''}")
  case True
  with assms show ?thesis
    by (elim insertE emptyE; simp add: lookup_entry_def hrv_norms_range_def getitem_def py_bind_def)
next
  case False
  then show ?thesis
    by (simp add: lookup_entry_def hrv_norms_range_def getitem_def py_bind_def)
qed

lemma lookup_entry_no_gender:
  assumes "g \<noteq> ''male''" "g \<noteq> ''female''"
  shows "lookup_entry g grp m = Inl KeyError"
  using assms by (simp add: lookup_entry_def hrv_norms_range_def getitem_def py_bind_def)

lemma estimate_ok:
  assumes "0 < n"
  shows "estimate st age g m v mean sd (PyInt n) =
     Inr (Report \<lparr>rep_age = age, rep_gender = g, rep_metric = m, rep_value = v,
        percentile = norm_cdf st ((v - mean) / sd) * 100,
        percentile_lower = norm_cdf st ((v - (mean + t_ppf st 0.975 (real_of_int (n - 1)) * (sd / sqrt (real_of_int n)))) / sd) * 100,
        percentile_upper = norm_cdf st ((v - (mean - t_ppf st 0.975 (real_of_int (n - 1)) * (sd / sqrt (real_of_int n)))) / sd) * 100,
        sample_size = n, reliability = reliability_of n, small_sample_warning = (n < 100)\<rparr>)"
  using assms by (simp add: estimate_def math_sqrt_def py_div_def py_bind_def Let_def)

section \<open>get\_hrv\_percentile on valid and invalid keys\<close>

lemma get_hrv_percentile_valid:
  assumes "valid_key age gender m"
  shows "\<exists>grp mean sd n.
     age_group age = Some grp
     \<and> lookup_group (lower gender) grp (normalize_metric m) = Inr (mean, sd, PyInt n)
     \<and> 0 < sd \<and> 62 \<le> n
     \<and> get_hrv_percentile st age gender m v =
         estimate st age (lower gender) m v mean sd (PyInt n)"
proof -
  from assms have a: "25 \<le> age" "age \<le> 74" and g: "lower gender \<in> {''male'', ''female''}"
    and k: "lower m \<in> {''sdnn'', ''rmssd'', ''hf''}"
    by (simp_all add: valid_key_def)
  from age_group_Some [OF a] obtain grp where grp: "age_group age = Some grp"
    "grp \<in> {''25-34'', ''35-44'', ''45-54'', ''55-64'', ''65-74''}" by blast
  from lookup_group_valid [OF g grp(2) normalize_metric_known [OF k]]
  obtain mean sd n where l: "lookup_group (lower gender) grp (normalize_metric m) = Inr (mean, sd, PyInt n)"
    and pos: "0 < sd" "62 \<le> n"
    by (auto split: sum.splits prod.splits group_value.splits)
  from g have g': "lower gender = ''male'' \<or> lower gender = ''female''" by simp
  have "get_hrv_percentile st age gender m v = estimate st age (lower gender) m v mean sd (PyInt n)"
    using grp(1) g' l pos(1) by (auto simp: get_hrv_percentile_def Let_def)
  with grp(1) l pos show ?thesis by blast
qed

lemma estimate_not_message: "estimate st age g m v mean sd n \<noteq> Inr (Message s)"
  by (auto simp: estimate_def math_sqrt_def py_div_def py_bind_def Let_def
      split: group_value.splits)

lemma message_distinct:
  "age_error \<noteq> gender_error" "metric_error m g grp \<noteq> age_error"
  "metric_error m g grp \<noteq> gender_error" "sd_error \<noteq> age_error" "sd_error \<noteq> gender_error"
  by (simp_all add: age_error_def gender_error_def metric_error_def sd_error_def)

lemma get_hrv_percentile_report:
  assumes "valid_key age gender m"
  shows "\<exists>grp mean sd n.
     age_group age = Some grp
     \<and> lookup_group (lower gender) grp (normalize_metric m) = Inr (mean, sd, PyInt n)
     \<and> 0 < sd \<and> 62 \<le> n
     \<and> get_hrv_percentile st age gender m v =
        Inr (Report \<lparr>rep_age = age, rep_gender = lower gender, rep_metric = m, rep_value = v,
          percentile = norm_cdf st ((v - mean) / sd) * 100,
          percentile_lower = norm_cdf st ((v - (mean + t_ppf st 0.975 (real_of_int (n - 1)) * (sd / sqrt (real_of_int n)))) / sd) * 100,
          percentile_upper = norm_cdf st ((v - (mean - t_ppf st 0.975 (real_of_int (n - 1)) * (sd / sqrt (real_of_int n)))) / sd) * 100,
          sample_size = n, reliability = reliability_of n, small_sample_warning = (n < 100)\<rparr>)"
proof -
  from get_hrv_percentile_valid [OF assms, of st v]
  obtain grp mean sd n where h: "age_group age = Some grp"
    "lookup_group (lower gender) grp (normalize_metric m) = Inr (mean, sd, PyInt n)"
    "0 < sd" "62 \<le> n"
    "get_hrv_percentile st age gender m v = estimate st age (lower gender) m v mean sd (PyInt n)"
    by blast
  from h(4) have "0 < n" by simp
  from h(5) estimate_ok [OF this] h(1-4) show ?thesis by metis
qed

lemma get_hrv_percentile_in_range:
  assumes "age_group age = Some grp" "lower gender \<in> {''male'', ''female''}"
  shows "get_hrv_percentile st age gender m v =
     (case lookup_group (lower gender) grp (normalize_metric m) of
        Inl KeyError \<Rightarrow> Inr (Message (metric_error m (lower gender) grp))
      | Inl e \<Rightarrow> Inl e
      | Inr (mean, sd, n) \<Rightarrow>
          if sd = 0 then Inr (Message sd_error)
          else estimate st age (lower gender) m v mean sd n)"
proof -
  from assms(2) have "lower gender = ''male'' \<or> lower gender = ''female''" by simp
  with assms(1) show ?thesis
    by (auto simp: get_hrv_percentile_def Let_def)
qed

lemma get_hrv_percentile_bad_gender:
  assumes "25 \<le> age" "age \<le> 74" "lower gender \<notin> {''male'', ''female''}"
  shows "get_hrv_percentile st age gender m v = Inr (Message gender_error)"
proof -
  from age_group_Some [OF assms(1,2)] obtain grp where "age_group age = Some grp" by blast
  with assms(3) show ?thesis by (simp add: get_hrv_percentile_def Let_def)
qed

lemma get_hrv_percentile_bad_age:
  assumes "age < 25 \<or> 74 < age"
  shows "get_hrv_percentile st age gender m v = Inr (Message age_error)"
  using assms by (simp add: get_hrv_percentile_def age_group_None_iff [symmetric])

lemma get_hrv_percentile_n:
  assumes "25 \<le> age" "age \<le> 74" "lower gender \<in> {''male'', ''female''}"
  shows "get_hrv_percentile st age gender ''n'' v = Inl TypeError"
proof -
  from age_group_Some [OF assms(1,2)] obtain grp where grp: "age_group age = Some grp"
    "grp \<in> {''25-34'', ''35-44'', ''45-54'', ''55-64'', ''65-74''}" by blast
  have "normalize_metric ''n'' = ''n''"
    by (simp add: normalize_metric_def metric_mapping_def lower_def lower_char_def)
  with get_hrv_percentile_in_range [OF grp(1) assms(3)] lookup_group_n [OF assms(3) grp(2)]
  show ?thesis by simp
qed

lemma get_hrv_percentile_unknown_metric:
  assumes "25 \<le> age" "age \<le> 74" "lower gender \<in> {''male'', ''female''}"
    and "lower m \<notin> {''sdnn'', ''rmssd'', ''hf''}" "m \<noteq> ''n''"
  shows "\<exists>grp. age_group age = Some grp \<and>
     get_hrv_percentile st age gender m v = Inr (Message (metric_error m (lower gender) grp))"
proof -
  from age_group_Some [OF assms(1,2)] obtain grp where grp: "age_group age = Some grp"
    "grp \<in> {''25-34'', ''35-44'', ''45-54'', ''55-64'', ''65-74''}" by blast
  note nm = normalize_metric_other [OF assms(4)]
  from lookup_group_other [OF assms(3) grp(2) nm(2-4) assms(5)] nm(1)
    get_hrv_percentile_in_range [OF grp(1) assms(3)] grp(1)
  show ?thesis by simp
qed

text \<open>
  C1 (as the code behaves at the metric name \<open>n\<close>).  The claim says that every
  metric name that does not normalise to sdNN, RMSSD or HF, the name \<open>n\<close> included,
  yields the metric-unavailable message and never an uncaught exception.  The name
  \<open>n\<close> is a key of the group record, its value is an integer, and subscripting it
  with \<open>'mean'\<close> raises TypeError, which \<open>except KeyError\<close> does not catch: the
  call raises.  (Every other unrecognised name does give the message:
  \<open>get_hrv_percentile_unknown_metric\<close>.)
\<close>
theorem get_hrv_percentile_metric_n_raises:
  "get_hrv_percentile st 30 ''male'' ''n'' v = Inl TypeError"
  by (rule get_hrv_percentile_n) (simp_all add: lower_def lower_char_def)

text \<open>
  C6.  The age message is returned exactly when the age is outside 25..74, whatever the
  gender (the age is checked first); for an age inside, the gender message is returned
  exactly when the lowered gender is neither \<open>male\<close> nor \<open>female\<close>; the two
  messages are different values, and both are returned, not raised.
\<close>
theorem get_hrv_percentile_age_then_gender:
  "(get_hrv_percentile st age gender m v = Inr (Message age_error) \<longleftrightarrow> age < 25 \<or> 74 < age)
   \<and> (25 \<le> age \<and> age \<le> 74 \<longrightarrow>
        (get_hrv_percentile st age gender m v = Inr (Message gender_error)
           \<longleftrightarrow> lower gender \<notin> {''male'', ''female''}))
   \<and> age_error \<noteq> gender_error"
proof (cases "age < 25 \<or> 74 < age")
  case True
  with get_hrv_percentile_bad_age [OF True] message_distinct(1) show ?thesis by auto
next
  case False
  then have a: "25 \<le> age" "age \<le> 74" by auto
  from age_group_Some [OF a] obtain grp where grp: "age_group age = Some grp" by blast
  show ?thesis
  proof (cases "lower gender \<in> {''male'', ''female''}")
    case True
    have "get_hrv_percentile st age gender m v \<noteq> Inr (Message age_error)"
      "get_hrv_percentile st age gender m v \<noteq> Inr (Message gender_error)"
      unfolding get_hrv_percentile_in_range [OF grp True]
      using message_distinct estimate_not_message
      by (auto split: sum.splits py_exception.splits prod.splits)
    with a True message_distinct(1) show ?thesis by auto
  next
    case False
    from get_hrv_percentile_bad_gender [OF a False] a False message_distinct(1)
    show ?thesis by auto
  qed
qed

theorem get_hrv_percentile_age_then_gender_witness:
  "get_hrv_percentile sample_stats 80 ''male'' ''sdNN'' 50 = Inr (Message age_error)
   \<and> get_hrv_percentile sample_stats 30 ''Martian'' ''sdNN'' 50 = Inr (Message gender_error)
   \<and> get_hrv_percentile sample_stats 30 ''Male'' ''sdNN'' 50 \<noteq> Inr (Message gender_error)"
  using get_hrv_percentile_age_then_gender [of sample_stats 80 "''male''" "''sdNN''" 50]
    get_hrv_percentile_age_then_gender [of sample_stats 30 "''Martian''" "''sdNN''" 50]
    get_hrv_percentile_age_then_gender [of sample_stats 30 "''Male''" "''sdNN''" 50]
  by (simp add: lower_def lower_char_def)

section \<open>Reliability\<close>

lemma lookup_group_sizes:
  assumes "m \<in> {''sdNN'', ''RMSSD'', ''HF''}"
  shows "case lookup_group ''male'' ''25-34'' m of Inr (mean, sd, n) \<Rightarrow> n = PyInt 330 | _ \<Rightarrow> False"
    and "case lookup_group ''female'' ''55-64'' m of Inr (mean, sd, n) \<Rightarrow> n = PyInt 95 | _ \<Rightarrow> False"
  using assms
  by (elim insertE emptyE; simp add: lookup_group_def hrv_norms_def getitem_def py_bind_def subscript_def)+

lemma age_group_bands:
  "25 \<le> age \<Longrightarrow> age \<le> 34 \<Longrightarrow> age_group age = Some ''25-34''"
  "55 \<le> age \<Longrightarrow> age \<le> 64 \<Longrightarrow> age_group age = Some ''55-64''"
  by (simp_all add: age_group_def)

text \<open>
  C7.  The reliability tier is a function of the sample size alone, with exactly these
  thresholds for every integer \<open>k\<close>: Low below 50, Moderate from 50 below 100, Good
  from 100 below 200, High from 200.  The computation after the table read puts
  \<open>reliability_of k\<close> into the report for every positive size \<open>k\<close>, and on every
  valid key the call returns a report whose reliability is \<open>reliability_of\<close> of the
  size stored in the table for the group: 330 and High for males of 25 to 34, 95 and
  Moderate for females of 55 to 64.
\<close>
theorem reliability_tiers_of_sample_size:
  "(k < 50 \<longrightarrow> reliability_of k = ''Low'')
   \<and> (50 \<le> k \<and> k < 100 \<longrightarrow> reliability_of k = ''Moderate'')
   \<and> (100 \<le> k \<and> k < 200 \<longrightarrow> reliability_of k = ''Good'')
   \<and> (200 \<le> k \<longrightarrow> reliability_of k = ''High'')
   \<and> (0 < k \<longrightarrow>
        (\<exists>r. estimate st age g m v mean sd (PyInt k) = Inr (Report r)
           \<and> sample_size r = k \<and> reliability r = reliability_of k))
   \<and> (valid_key age gender m \<longrightarrow>
        (\<exists>r grp mean' sd'.
           get_hrv_percentile st age gender m v = Inr (Report r)
           \<and> age_group age = Some grp
           \<and> lookup_group (lower gender) grp (normalize_metric m)
               = Inr (mean', sd', PyInt (sample_size r))
           \<and> reliability r = reliability_of (sample_size r)
           \<and> (age \<le> 34 \<and> lower gender = ''male'' \<longrightarrow>
                 sample_size r = 330 \<and> reliability r = ''High'')
           \<and> (55 \<le> age \<and> age \<le> 64 \<and> lower gender = ''female'' \<longrightarrow>
                 sample_size r = 95 \<and> reliability r = ''Moderate'')))"
proof -
  have tiers: "(k < 50 \<longrightarrow> reliability_of k = ''Low'')
      \<and> (50 \<le> k \<and> k < 100 \<longrightarrow> reliability_of k = ''Moderate'')
      \<and> (100 \<le> k \<and> k < 200 \<longrightarrow> reliability_of k = ''Good'')
      \<and> (200 \<le> k \<longrightarrow> reliability_of k = ''High'')"
    by (simp add: reliability_of_def)
  have est: "\<exists>r. estimate st age g m v mean sd (PyInt k) = Inr (Report r)
           \<and> sample_size r = k \<and> reliability r = reliability_of k" if "0 < k"
    using estimate_ok [OF that, of st age g m v mean sd] by simp
  have rep: "\<exists>r grp mean' sd'.
           get_hrv_percentile st age gender m v = Inr (Report r)
           \<and> age_group age = Some grp
           \<and> lookup_group (lower gender) grp (normalize_metric m)
               = Inr (mean', sd', PyInt (sample_size r))
           \<and> reliability r = reliability_of (sample_size r)
           \<and> (age \<le> 34 \<and> lower gender = ''male'' \<longrightarrow>
                 sample_size r = 330 \<and> reliability r = ''High'')
           \<and> (55 \<le> age \<and> age \<le> 64 \<and> lower gender = ''female'' \<longrightarrow>
                 sample_size r = 95 \<and> reliability r = ''Moderate'')"
    if vk: "valid_key age gender m"
  proof -
    from get_hrv_percentile_report [OF vk, of st v]
    obtain grp mean' sd' n r where h: "age_group age = Some grp"
      "lookup_group (lower gender) grp (normalize_metric m) = Inr (mean', sd', PyInt n)"
      "get_hrv_percentile st age gender m v = Inr (Report r)"
      "sample_size r = n" "reliability r = reliability_of n"
      by fastforce
    from vk have a: "25 \<le> age" and "lower m \<in> {''sdnn'', ''rmssd'', ''hf''}"
      by (simp_all add: valid_key_def)
    from normalize_metric_known [OF this(2)]
    have k: "normalize_metric m \<in> {''sdNN'', ''RMSSD'', ''HF''}" .
    have male: "n = 330" if "age \<le> 34" "lower gender = ''male''"
      using lookup_group_sizes(1) [OF k] h(1,2) age_group_bands(1) [OF a that(1)] that(2)
      by simp
    have female: "n = 95" if "55 \<le> age" "age \<le> 64" "lower gender = ''female''"
      using lookup_group_sizes(2) [OF k] h(1,2) age_group_bands(2) [OF that(1,2)] that(3)
      by simp
    have ex: "n = 330 \<Longrightarrow> reliability_of n = ''High''"
      "n = 95 \<Longrightarrow> reliability_of n = ''Moderate''"
      by (simp_all add: reliability_of_def)
    from h male female ex show ?thesis
      by (intro exI [of _ r] exI [of _ grp] exI [of _ mean'] exI [of _ sd']) simp
  qed
  from tiers est rep show ?thesis by blast
qed

theorem reliability_tiers_of_sample_size_witness:
  "reliability_of 49 = ''Low'' \<and> reliability_of 50 = ''Moderate''
   \<and> reliability_of 99 = ''Moderate'' \<and> reliability_of 100 = ''Good''
   \<and> reliability_of 199 = ''Good'' \<and> reliability_of 200 = ''High''
   \<and> (\<exists>r. estimate sample_stats 30 ''male'' ''sdNN'' 50 49.9 19.8 (PyInt 49) = Inr (Report r)
         \<and> sample_size r = 49 \<and> reliability r = ''Low'')
   \<and> valid_key 30 ''male'' ''sdNN''
   \<and> (\<exists>r. get_hrv_percentile sample_stats 30 ''male'' ''sdNN'' 50 = Inr (Report r)
         \<and> sample_size r = 330 \<and> reliability r = ''High'')
   \<and> valid_key 60 ''Female'' ''hf''
   \<and> (\<exists>r. get_hrv_percentile sample_stats 60 ''Female'' ''hf'' 50 = Inr (Report r)
         \<and> sample_size r = 95 \<and> reliability r = ''Moderate'')"
proof -
  note t = reliability_tiers_of_sample_size
  have b: "reliability_of 49 = ''Low''" "reliability_of 50 = ''Moderate''"
    "reliability_of 99 = ''Moderate''" "reliability_of 100 = ''Good''"
    "reliability_of 199 = ''Good''" "reliability_of 200 = ''High''"
    using t [where k = 49] t [where k = 50] t [where k = 99] t [where k = 100]
      t [where k = 199] t [where k = 200]
    by simp_all
  have e: "\<exists>r. estimate sample_stats 30 ''male'' ''sdNN'' 50 49.9 19.8 (PyInt 49) = Inr (Report r)
         \<and> sample_size r = 49 \<and> reliability r = ''Low''"
    using t [where k = 49 and st = sample_stats and age = 30 and g = "''male''"
        and m = "''sdNN''" and v = 50 and mean = "49.9" and sd = "19.8"] b(1)
    by simp
  have v1: "valid_key 30 ''male'' ''sdNN''" and v2: "valid_key 60 ''Female'' ''hf''"
    by (simp_all add: valid_key_def lower_def lower_char_def)
  have l: "lower ''male'' = ''male''" "lower ''Female'' = ''female''"
    by (simp_all add: lower_def lower_char_def)
  obtain r1 where r1: "get_hrv_percentile sample_stats 30 ''male'' ''sdNN'' 50 = Inr (Report r1)"
    "30 \<le> (34::int) \<and> lower ''male'' = ''male'' \<longrightarrow> sample_size r1 = 330 \<and> reliability r1 = ''High''"
    using t [where st = sample_stats and age = 30 and gender = "''male''"
        and m = "''sdNN''" and v = 50] v1 by blast
  obtain r2 where r2: "get_hrv_percentile sample_stats 60 ''Female'' ''hf'' 50 = Inr (Report r2)"
    "55 \<le> (60::int) \<and> 60 \<le> (64::int) \<and> lower ''Female'' = ''female'' \<longrightarrow>
       sample_size r2 = 95 \<and> reliability r2 = ''Moderate''"
    using t [where st = sample_stats and age = 60 and gender = "''Female''"
        and m = "''hf''" and v = 50] v2 by blast
  from b e r1 r2 l v1 v2 show ?thesis by simp
qed

section \<open>The range operations on invalid keys\<close>

lemma range_ops_bad_age:
  assumes "age < 25 \<or> 74 < age"
  shows "get_normative_range st age gender m = Inr None"
    and "get_5th_percentile_value st age gender m = Inr None"
  using assms
  by (simp_all add: get_normative_range_def get_5th_percentile_value_def
      age_group_None_iff [symmetric])

lemma range_ops_miss:
  assumes "age_group age = Some grp"
    and "lookup_entry (lower gender) grp (normalize_metric m) = Inl KeyError"
  shows "get_normative_range st age gender m = Inr None"
    and "get_5th_percentile_value st age gender m = Inr None"
  using assms
  by (simp_all add: get_normative_range_def get_5th_percentile_value_def Let_def py_bind_def)

lemma range_ops_bad_gender:
  assumes "25 \<le> age" "age \<le> 74" "lower gender \<notin> {''male'', ''female''}"
  shows "get_normative_range st age gender m = Inr None"
    and "get_5th_percentile_value st age gender m = Inr None"
proof -
  from age_group_Some [OF assms(1,2)] obtain grp where grp: "age_group age = Some grp" by blast
  from assms(3) have "lower gender \<noteq> ''male''" "lower gender \<noteq> ''female''" by simp_all
  from range_ops_miss [OF grp lookup_entry_no_gender [OF this]]
  show "get_normative_range st age gender m = Inr None"
    and "get_5th_percentile_value st age gender m = Inr None" .
qed

lemma range_ops_unknown_metric:
  assumes "25 \<le> age" "age \<le> 74" "lower m \<notin> {''sdnn'', ''rmssd'', ''hf''}"
  shows "get_normative_range st age gender m = Inr None"
    and "get_5th_percentile_value st age gender m = Inr None"
proof -
  from age_group_Some [OF assms(1,2)] obtain grp where grp: "age_group age = Some grp"
    "grp \<in> {''25-34'', ''35-44'', ''45-54'', ''55-64'', ''65-74''}" by blast
  note nm = normalize_metric_other [OF assms(3)]
  have "lookup_entry (lower gender) grp (normalize_metric m) = Inl KeyError"
    unfolding nm(1) by (rule lookup_entry_no_metric [OF grp(2) nm(2-4)])
  from range_ops_miss [OF grp(1) this]
  show "get_normative_range st age gender m = Inr None"
    and "get_5th_percentile_value st age gender m = Inr None" .
qed

text \<open>
  C8, the claim as stated.  The claim says that for the two range operations an age
  outside the five bands yields a condition that can be told apart from a table miss.
  Both return \<open>None\<close>: the call at age 80 and the call with the unknown metric
  \<open>LF\<close> at age 30 return the same value.
\<close>
theorem range_ops_out_of_range_indistinguishable:
  "get_normative_range sample_stats 80 ''male'' ''sdNN''
     = get_normative_range sample_stats 30 ''male'' ''LF''
   \<and> get_5th_percentile_value sample_stats 80 ''male'' ''sdNN''
     = get_5th_percentile_value sample_stats 30 ''male'' ''LF''"
proof -
  have "lower ''LF'' \<notin> {''sdnn'', ''rmssd'', ''hf''}"
    by (simp add: lower_def lower_char_def)
  from range_ops_unknown_metric [OF _ _ this, of 30 sample_stats "''male''"]
    range_ops_bad_age [of 80 sample_stats "''male''" "''sdNN''"]
  show ?thesis by simp
qed

text \<open>
  C8, amended.  For \<open>get_normative_range\<close> and \<open>get_5th_percentile_value\<close>, an
  age outside the five inclusive bands returns \<open>None\<close>, and so does a table miss on
  an unavailable metric at an age inside them: the return value does not tell the two
  apart.
\<close>
theorem range_ops_out_of_range_is_the_miss_value:
  assumes "age < 25 \<or> 74 < age"
    and "25 \<le> age'" "age' \<le> 74" "lower m' \<notin> {''sdnn'', ''rmssd'', ''hf''}"
  shows "get_normative_range st age gender m = Inr None
    \<and> get_5th_percentile_value st age gender m = Inr None
    \<and> get_normative_range st age' gender' m' = Inr None
    \<and> get_5th_percentile_value st age' gender' m' = Inr None"
  using range_ops_bad_age [OF assms(1)] range_ops_unknown_metric [OF assms(2-4)]
  by simp

theorem range_ops_out_of_range_is_the_miss_value_witness:
  "(80 < (25::int) \<or> (74::int) < 80) \<and> (25::int) \<le> 30 \<and> (30::int) \<le> 74
    \<and> lower ''LF'' \<notin> {''sdnn'', ''rmssd'', ''hf''}
    \<and> get_normative_range sample_stats 80 ''male'' ''sdNN'' = Inr None
    \<and> get_5th_percentile_value sample_stats 80 ''male'' ''sdNN'' = Inr None
    \<and> get_normative_range sample_stats 30 ''male'' ''LF'' = Inr None
    \<and> get_5th_percentile_value sample_stats 30 ''male'' ''LF'' = Inr None"
proof -
  have h: "lower ''LF'' \<notin> {''sdnn'', ''rmssd'', ''hf''}"
    by (simp add: lower_def lower_char_def)
  from range_ops_out_of_range_is_the_miss_value
    [of 80 30 "''LF''" sample_stats "''male''" "''sdNN''" "''male''", OF _ _ _ h] h
  show ?thesis by simp
qed

text \<open>
  C10.  The two range operations do not validate the gender: at every age in 25..74, a
  gender whose lowering is neither \<open>male\<close> nor \<open>female\<close> gives \<open>None\<close>, the
  value an unavailable metric gives, where \<open>get_hrv_percentile\<close> returns its
  gender message for the same input.
\<close>
theorem range_ops_do_not_validate_gender:
  assumes "25 \<le> age" "age \<le> 74" "lower gender \<notin> {''male'', ''female''}"
  shows "get_5th_percentile_value st age gender m = Inr None
    \<and> get_normative_range st age gender m = Inr None
    \<and> get_hrv_percentile st age gender m v = Inr (Message gender_error)
    \<and> (lower m' \<notin> {''sdnn'', ''rmssd'', ''hf''} \<longrightarrow>
         get_5th_percentile_value st age gender' m' = Inr None
         \<and> get_normative_range st age gender' m' = Inr None)"
  using range_ops_bad_gender [OF assms] get_hrv_percentile_bad_gender [OF assms]
    range_ops_unknown_metric [OF assms(1,2)]
  by simp

theorem range_ops_do_not_validate_gender_witness:
  "(25::int) \<le> 30 \<and> (30::int) \<le> 74 \<and> lower ''Martian'' \<notin> {''male'', ''female''}
    \<and> lower ''LF'' \<notin> {''sdnn'', ''rmssd'', ''hf''}
    \<and> get_5th_percentile_value sample_stats 30 ''Martian'' ''sdNN'' = Inr None
    \<and> get_normative_range sample_stats 30 ''Martian'' ''sdNN'' = Inr None
    \<and> get_hrv_percentile sample_stats 30 ''Martian'' ''sdNN'' 50 = Inr (Message gender_error)
    \<and> get_5th_percentile_value sample_stats 30 ''male'' ''LF'' = Inr None
    \<and> get_normative_range sample_stats 30 ''male'' ''LF'' = Inr None"
proof -
  have h: "lower ''Martian'' \<notin> {''male'', ''female''}"
    and k: "lower ''LF'' \<notin> {''sdnn'', ''rmssd'', ''hf''}"
    by (simp_all add: lower_def lower_char_def)
  from range_ops_do_not_validate_gender
    [of 30 "''Martian''" sample_stats "''sdNN''" 50 "''LF''" "''male''", OF _ _ h] h k
  show ?thesis by simp
qed

section \<open>The normal distribution function\<close>

text \<open>
  The series converges everywhere, its derivative is the normal density, and so
  \<open>Phi\<close> is strictly increasing; its value at 0 is one half.
\<close>

lemma Phi_series_summable: "summable (\<lambda>n. Phi_coeff n * y ^ n)"
proof -
  define g where "g k = (- 1) ^ k / (2 ^ k * fact k * real (Suc (2 * k))) * y ^ Suc (2 * k)" for k
  have "summable (\<lambda>k. \<bar>y\<bar> * (inverse (fact k) * (y\<^sup>2) ^ k))"
    by (intro summable_mult summable_exp)
  moreover have "norm (g k) \<le> \<bar>y\<bar> * (inverse (fact k) * (y\<^sup>2) ^ k)" for k
  proof -
    have "(1::real) * 1 \<le> 2 ^ k * real (Suc (2 * k))"
      by (rule mult_mono) simp_all
    then have d: "fact k \<le> 2 ^ k * fact k * real (Suc (2 * k))"
      using mult_left_mono [of 1 "2 ^ k * real (Suc (2 * k))" "fact k :: real"]
      by (simp add: mult_ac)
    have "norm (g k) = \<bar>y\<bar> * (y\<^sup>2) ^ k / (2 ^ k * fact k * real (Suc (2 * k)))"
      by (simp add: g_def abs_mult power_abs power_mult power2_eq_square abs_mult_self_eq
          del: of_nat_Suc)
    also have "\<dots> \<le> \<bar>y\<bar> * (y\<^sup>2) ^ k / fact k"
      by (rule divide_left_mono [OF d]) (simp_all add: zero_less_mult_iff del: of_nat_Suc)
    finally show ?thesis by (simp add: field_simps)
  qed
  ultimately have "summable g"
    by (rule summable_comparison_test' [where N = 0])
  then have "g sums suminf g" by (rule summable_sums)
  from sums_if' [OF this]
  have "(\<lambda>n. if even n then 0 else g ((n - 1) div 2)) sums suminf g" .
  moreover have "(if even n then 0 else g ((n - 1) div 2)) = Phi_coeff n * y ^ n" for n
    by (auto simp: g_def Phi_coeff_def elim!: oddE)
  ultimately show ?thesis by (simp add: sums_iff)
qed

lemma Phi_diffs_term:
  "diffs Phi_coeff n * x ^ n =
     (if even n then (- (x\<^sup>2) / 2) ^ (n div 2) /\<^sub>R fact (n div 2) else 0)"
proof (cases "even n")
  case True
  then obtain k where n: "n = 2 * k" by (elim evenE)
  have p: "x ^ (2 * k) = (x\<^sup>2) ^ k" by (rule power_mult)
  have "real (Suc (2 * k)) \<noteq> 0" by (simp del: of_nat_Suc)
  then have d: "diffs Phi_coeff (2 * k) = (- 1) ^ k / (2 ^ k * fact k)"
    by (simp add: diffs_def Phi_coeff_def del: of_nat_Suc)
  have "(- (x\<^sup>2) / 2) ^ k = ((- 1) * (x\<^sup>2 / 2)) ^ k" by simp
  also have "\<dots> = (- 1) ^ k * (x\<^sup>2 / 2) ^ k" by (rule power_mult_distrib)
  finally have e: "(- (x\<^sup>2) / 2) ^ k = (- 1) ^ k * (x\<^sup>2) ^ k / 2 ^ k"
    by (simp add: power_divide)
  have "diffs Phi_coeff (2 * k) * x ^ (2 * k) = (- (x\<^sup>2) / 2) ^ k /\<^sub>R fact k"
    unfolding p d e by (simp add: scaleR_conv_of_real divide_inverse mult_ac)
  then show ?thesis by (simp add: n)
next
  case False
  then show ?thesis by (simp add: diffs_def Phi_coeff_def)
qed

lemma Phi_diffs_sums: "(\<lambda>n. diffs Phi_coeff n * x ^ n) sums exp (- (x\<^sup>2) / 2)"
proof -
  have "(\<lambda>k. (- (x\<^sup>2) / 2) ^ k /\<^sub>R fact k) sums exp (- (x\<^sup>2) / 2)"
    by (rule exp_converges)
  from sums_if [OF sums_zero this]
  have "(\<lambda>n. if even n then (- (x\<^sup>2) / 2) ^ (n div 2) /\<^sub>R fact (n div 2) else 0)
          sums exp (- (x\<^sup>2) / 2)"
    by simp
  then show ?thesis by (simp only: Phi_diffs_term)
qed

lemma DERIV_Phi: "DERIV Phi x :> exp (- (x\<^sup>2) / 2) / sqrt (2 * pi)"
proof -
  have "DERIV (\<lambda>x. \<Sum>n. Phi_coeff n * x ^ n) x :> (\<Sum>n. diffs Phi_coeff n * x ^ n)"
    by (rule termdiffs_strong_converges_everywhere) (rule Phi_series_summable)
  also have "(\<Sum>n. diffs Phi_coeff n * x ^ n) = exp (- (x\<^sup>2) / 2)"
    using Phi_diffs_sums [of x] by (simp add: sums_iff)
  finally have "DERIV (\<lambda>x. \<Sum>n. Phi_coeff n * x ^ n) x :> exp (- (x\<^sup>2) / 2)" .
  from DERIV_add [OF DERIV_const [of "1 / 2"] DERIV_cdivide [OF this, of "sqrt (2 * pi)"]]
  show ?thesis by (simp add: Phi_def [abs_def])
qed

lemma Phi_zero: "Phi 0 = 1 / 2"
  by (simp add: Phi_def Phi_coeff_def)

lemma Phi_strict_mono: "strict_mono Phi"
proof (rule strict_monoI)
  fix a b :: real
  assume "a < b"
  then show "Phi a < Phi b"
  proof (rule DERIV_pos_imp_increasing)
    fix x
    have "0 < exp (- (x\<^sup>2) / 2) / sqrt (2 * pi)" by simp
    with DERIV_Phi [of x] show "\<exists>y. DERIV Phi x :> y \<and> 0 < y" by blast
  qed
qed

lemma Phi_mono: "mono Phi"
  by (rule strict_mono_mono [OF Phi_strict_mono])

section \<open>The percentile and its confidence bounds\<close>

lemma table_rows:
  "lookup_group ''male'' ''25-34'' ''sdNN'' = Inr (49.9, 19.8, PyInt 330)"
  "lookup_entry ''female'' ''25-34'' ''HF'' = Inr [(''mean'', 161), (''sd'', 167)]"
  "lookup_entry ''female'' ''35-44'' ''RMSSD'' = Inr [(''mean'', 30.7), (''sd'', 15.1)]"
  by (simp_all add: lookup_group_def hrv_norms_def lookup_entry_def hrv_norms_range_def
      getitem_def py_bind_def subscript_def)

text \<open>
  C4.  On every valid key and every value the call returns a report whose percentile is
  \<open>norm_cdf ((user_value - mean) / sd) * 100\<close>, with \<open>mean\<close> and \<open>sd\<close> read from
  the table entry of the key; at \<open>user_value = mean\<close> the percentile is
  \<open>norm_cdf 0 * 100\<close>, which is 50 as soon as the distribution function is one half at
  0 (as \<open>Phi\<close> is).
\<close>
theorem percentile_is_scaled_cdf_of_z_score:
  assumes "valid_key age gender m"
  shows "\<exists>grp mean sd n r r0.
      age_group age = Some grp
      \<and> lookup_group (lower gender) grp (normalize_metric m) = Inr (mean, sd, PyInt n)
      \<and> sd \<noteq> 0
      \<and> get_hrv_percentile st age gender m v = Inr (Report r)
      \<and> percentile r = norm_cdf st ((v - mean) / sd) * 100
      \<and> get_hrv_percentile st age gender m mean = Inr (Report r0)
      \<and> percentile r0 = norm_cdf st 0 * 100
      \<and> (norm_cdf st 0 = 1 / 2 \<longrightarrow> percentile r0 = 50)"
proof -
  from get_hrv_percentile_report [OF assms, of st v]
  obtain grp mean sd n r where h: "age_group age = Some grp"
    "lookup_group (lower gender) grp (normalize_metric m) = Inr (mean, sd, PyInt n)"
    "0 < sd" "get_hrv_percentile st age gender m v = Inr (Report r)"
    "percentile r = norm_cdf st ((v - mean) / sd) * 100"
    by fastforce
  from get_hrv_percentile_report [OF assms, of st mean] h(1,2)
  obtain r0 where h0: "get_hrv_percentile st age gender m mean = Inr (Report r0)"
    "percentile r0 = norm_cdf st ((mean - mean) / sd) * 100"
    by fastforce
  from h0(2) have z: "percentile r0 = norm_cdf st 0 * 100" by simp
  then have "norm_cdf st 0 = 1 / 2 \<longrightarrow> percentile r0 = 50" by simp
  with h h0(1) z show ?thesis by blast
qed

theorem percentile_is_scaled_cdf_of_z_score_witness:
  "valid_key 30 ''male'' ''sdNN''
   \<and> norm_cdf sample_stats 0 = 1 / 2
   \<and> (\<exists>r. get_hrv_percentile sample_stats 30 ''male'' ''sdNN'' 60 = Inr (Report r)
         \<and> percentile r = Phi ((60 - 49.9) / 19.8) * 100)
   \<and> (\<exists>r0. get_hrv_percentile sample_stats 30 ''male'' ''sdNN'' 49.9 = Inr (Report r0)
         \<and> percentile r0 = 50)"
proof -
  have v: "valid_key 30 ''male'' ''sdNN''"
    by (simp add: valid_key_def lower_def lower_char_def)
  have c: "norm_cdf sample_stats 0 = 1 / 2" "norm_cdf sample_stats = Phi"
    by (simp_all add: sample_stats_def Phi_zero)
  have k: "age_group 30 = Some ''25-34''" "lower ''male'' = ''male''"
    "normalize_metric ''sdNN'' = ''sdNN''"
    by (simp_all add: age_group_def lower_def lower_char_def normalize_metric_def
        metric_mapping_def)
  from percentile_is_scaled_cdf_of_z_score [OF v, of sample_stats 60]
  obtain mean sd n r r0 where
    h: "lookup_group ''male'' ''25-34'' ''sdNN'' = Inr (mean, sd, PyInt n)"
      "get_hrv_percentile sample_stats 30 ''male'' ''sdNN'' 60 = Inr (Report r)"
      "percentile r = Phi ((60 - mean) / sd) * 100"
      "get_hrv_percentile sample_stats 30 ''male'' ''sdNN'' mean = Inr (Report r0)"
      "percentile r0 = 50"
    unfolding k c by (auto simp: Phi_zero)
  from h(1) have "mean = 49.9" "sd = 19.8" by (simp_all add: table_rows(1))
  with h v c(1) show ?thesis by auto
qed

text \<open>
  With a strictly increasing distribution function, as the exact \<open>Phi\<close> is, the
  percentile is strictly increasing in the value: the standard deviation of every
  table entry is positive.
\<close>

lemma percentile_strict_for_strict_cdf:
  assumes "valid_key age gender m" and "strict_mono (norm_cdf st)" and "v1 < v2"
  shows "\<exists>r1 r2.
      get_hrv_percentile st age gender m v1 = Inr (Report r1)
      \<and> get_hrv_percentile st age gender m v2 = Inr (Report r2)
      \<and> percentile r1 < percentile r2"
proof -
  from get_hrv_percentile_report [OF assms(1), of st v1]
  obtain grp mean sd n r1 where h1: "age_group age = Some grp"
    "lookup_group (lower gender) grp (normalize_metric m) = Inr (mean, sd, PyInt n)"
    "0 < sd" "get_hrv_percentile st age gender m v1 = Inr (Report r1)"
    "percentile r1 = norm_cdf st ((v1 - mean) / sd) * 100"
    by fastforce
  from get_hrv_percentile_report [OF assms(1), of st v2] h1(1,2)
  obtain r2 where h2: "get_hrv_percentile st age gender m v2 = Inr (Report r2)"
    "percentile r2 = norm_cdf st ((v2 - mean) / sd) * 100"
    by fastforce
  from assms(3) h1(3) have "(v1 - mean) / sd < (v2 - mean) / sd"
    by (simp add: divide_strict_right_mono)
  from strict_monoD [OF assms(2) this] h1(5) h2(2)
  have "percentile r1 < percentile r2" by simp
  with h1(4) h2(1) show ?thesis by blast
qed







text \<open>
  C5.  On every valid key and every value, the lower percentile bound is computed
  against \<open>ci_upper_mean = mean + t * sem\<close>, the upper one against
  \<open>ci_lower_mean = mean - t * sem\<close>, and they bracket the percentile:
  \<open>percentile_lower \<le> percentile \<le> percentile_upper\<close>.  The proof uses of the
  library that the distribution function is monotone and that the Student quantile at
  0.975 is not negative.
\<close>
theorem confidence_bounds_bracket_percentile:
  assumes "valid_key age gender m" and "mono (norm_cdf st)"
    and "\<And>df. 1 \<le> df \<Longrightarrow> 0 \<le> t_ppf st 0.975 df"
  shows "\<exists>grp mean sd n r sem ci_lower_mean ci_upper_mean.
      age_group age = Some grp
      \<and> lookup_group (lower gender) grp (normalize_metric m) = Inr (mean, sd, PyInt n)
      \<and> get_hrv_percentile st age gender m v = Inr (Report r)
      \<and> sem = sd / sqrt (real_of_int n)
      \<and> ci_lower_mean = mean - t_ppf st 0.975 (real_of_int (n - 1)) * sem
      \<and> ci_upper_mean = mean + t_ppf st 0.975 (real_of_int (n - 1)) * sem
      \<and> percentile_lower r = norm_cdf st ((v - ci_upper_mean) / sd) * 100
      \<and> percentile_upper r = norm_cdf st ((v - ci_lower_mean) / sd) * 100
      \<and> percentile_lower r \<le> percentile r
      \<and> percentile r \<le> percentile_upper r"
proof -
  from get_hrv_percentile_report [OF assms(1), of st v]
  obtain grp mean sd n r where h: "age_group age = Some grp"
    "lookup_group (lower gender) grp (normalize_metric m) = Inr (mean, sd, PyInt n)"
    "0 < sd" "62 \<le> n" "get_hrv_percentile st age gender m v = Inr (Report r)"
    "percentile r = norm_cdf st ((v - mean) / sd) * 100"
    "percentile_lower r = norm_cdf st ((v - (mean + t_ppf st 0.975 (real_of_int (n - 1)) * (sd / sqrt (real_of_int n)))) / sd) * 100"
    "percentile_upper r = norm_cdf st ((v - (mean - t_ppf st 0.975 (real_of_int (n - 1)) * (sd / sqrt (real_of_int n)))) / sd) * 100"
    by fastforce
  define sem where "sem = sd / sqrt (real_of_int n)"
  define t where "t = t_ppf st 0.975 (real_of_int (n - 1))"
  from h(4) have "1 \<le> real_of_int (n - 1)" by simp
  from assms(3) [OF this] have t: "0 \<le> t" by (simp add: t_def)
  from h(3,4) have "0 \<le> sem" by (simp add: sem_def)
  with t have ts: "0 \<le> t * sem" by simp
  from ts h(3) have lo: "(v - (mean + t * sem)) / sd \<le> (v - mean) / sd"
    by (simp add: divide_right_mono)
  from ts h(3) have hi: "(v - mean) / sd \<le> (v - (mean - t * sem)) / sd"
    by (simp add: divide_right_mono)
  from monoD [OF assms(2) lo] monoD [OF assms(2) hi] h(6-8)
  have "percentile_lower r \<le> percentile r" "percentile r \<le> percentile_upper r"
    by (simp_all add: t_def sem_def)
  with h(1,2,5,7,8) show ?thesis
    unfolding sem_def t_def by blast
qed

theorem confidence_bounds_bracket_percentile_witness:
  "valid_key 30 ''male'' ''sdNN'' \<and> mono (norm_cdf sample_stats)
   \<and> 0 \<le> t_ppf sample_stats 0.975 329
   \<and> (\<exists>r. get_hrv_percentile sample_stats 30 ''male'' ''sdNN'' 50 = Inr (Report r)
         \<and> percentile_lower r \<le> percentile r \<and> percentile r \<le> percentile_upper r)"
proof -
  have v: "valid_key 30 ''male'' ''sdNN''"
    by (simp add: valid_key_def lower_def lower_char_def)
  have c: "mono (norm_cdf sample_stats)"
    by (simp add: sample_stats_def Phi_mono)
  have t: "0 \<le> t_ppf sample_stats 0.975 df" for df
    by (simp add: sample_stats_def)
  from confidence_bounds_bracket_percentile [OF v c t, of 50] v c t [of 329]
  show ?thesis by blast
qed

section \<open>The normative range and the 5th percentile value\<close>

lemma range_ops_valid:
  assumes "valid_key age gender m"
  shows "\<exists>grp d mean sd.
     age_group age = Some grp
     \<and> lookup_entry (lower gender) grp (normalize_metric m) = Inr d
     \<and> getitem d ''mean'' = Inr mean \<and> getitem d ''sd'' = Inr sd \<and> 0 < sd
     \<and> get_5th_percentile_value st age gender m
          = Inr (Some (max 0 (mean + norm_ppf st 0.05 * sd)))
     \<and> get_normative_range st age gender m
          = Inr (Some \<lparr>range_metric = m,
               p5 = max (range_floor (normalize_metric m)) (mean + norm_ppf st 0.05 * sd),
               p95 = mean + norm_ppf st 0.95 * sd\<rparr>)"
proof -
  from assms have a: "25 \<le> age" "age \<le> 74" and g: "lower gender \<in> {''male'', ''female''}"
    and k: "lower m \<in> {''sdnn'', ''rmssd'', ''hf''}"
    by (simp_all add: valid_key_def)
  from age_group_Some [OF a] obtain grp where grp: "age_group age = Some grp"
    "grp \<in> {''25-34'', ''35-44'', ''45-54'', ''55-64'', ''65-74''}" by blast
  from lookup_entry_valid [OF g grp(2) normalize_metric_known [OF k]]
  obtain d mean sd where l: "lookup_entry (lower gender) grp (normalize_metric m) = Inr d"
    "getitem d ''mean'' = Inr mean" "getitem d ''sd'' = Inr sd" and pos: "0 < sd"
    by (auto split: sum.splits prod.splits)
  have five: "get_5th_percentile_value st age gender m
      = Inr (Some (max 0 (mean + norm_ppf st 0.05 * sd)))"
    using grp(1) l by (simp add: get_5th_percentile_value_def Let_def py_bind_def)
  have rng: "get_normative_range st age gender m
      = Inr (Some \<lparr>range_metric = m,
           p5 = max (range_floor (normalize_metric m)) (mean + norm_ppf st 0.05 * sd),
           p95 = mean + norm_ppf st 0.95 * sd\<rparr>)"
    using grp(1) l
    by (simp add: get_normative_range_def Let_def py_bind_def range_floor_def)
  from grp(1) l pos five rng show ?thesis by blast
qed

text \<open>
  C3.  On every valid key \<open>get_normative_range\<close> returns
  \<open>p95 = mean + norm_ppf 0.95 * sd\<close> with no floor, and
  \<open>p5 = max floor (mean + norm_ppf 0.05 * sd)\<close> with the floor 1.0 for RMSSD, 5.0 for
  HF and 0.1 for sdNN, so that \<open>p5\<close> is never below the floor of its metric.
\<close>
theorem normative_range_floors_only_lower_bound:
  assumes "valid_key age gender m"
  shows "\<exists>grp d mean sd r.
      age_group age = Some grp
      \<and> lookup_entry (lower gender) grp (normalize_metric m) = Inr d
      \<and> getitem d ''mean'' = Inr mean \<and> getitem d ''sd'' = Inr sd
      \<and> get_normative_range st age gender m = Inr (Some r)
      \<and> p95 r = mean + norm_ppf st 0.95 * sd
      \<and> (normalize_metric m = ''RMSSD'' \<longrightarrow>
            p5 r = max 1.0 (mean + norm_ppf st 0.05 * sd) \<and> 1.0 \<le> p5 r)
      \<and> (normalize_metric m = ''HF'' \<longrightarrow>
            p5 r = max 5.0 (mean + norm_ppf st 0.05 * sd) \<and> 5.0 \<le> p5 r)
      \<and> (normalize_metric m = ''sdNN'' \<longrightarrow>
            p5 r = max 0.1 (mean + norm_ppf st 0.05 * sd) \<and> 0.1 \<le> p5 r)
      \<and> normalize_metric m \<in> {''sdNN'', ''RMSSD'', ''HF''}"
proof -
  from range_ops_valid [OF assms, of st]
  obtain grp d mean sd r where h: "age_group age = Some grp"
    "lookup_entry (lower gender) grp (normalize_metric m) = Inr d"
    "getitem d ''mean'' = Inr mean" "getitem d ''sd'' = Inr sd"
    "get_normative_range st age gender m = Inr (Some r)"
    "p5 r = max (range_floor (normalize_metric m)) (mean + norm_ppf st 0.05 * sd)"
    "p95 r = mean + norm_ppf st 0.95 * sd"
    by fastforce
  from assms have "lower m \<in> {''sdnn'', ''rmssd'', ''hf''}" by (simp add: valid_key_def)
  from normalize_metric_known [OF this]
  have k: "normalize_metric m \<in> {''sdNN'', ''RMSSD'', ''HF''}" .
  have f: "normalize_metric m = ''RMSSD'' \<longrightarrow>
            p5 r = max 1.0 (mean + norm_ppf st 0.05 * sd) \<and> 1.0 \<le> p5 r"
    "normalize_metric m = ''HF'' \<longrightarrow>
            p5 r = max 5.0 (mean + norm_ppf st 0.05 * sd) \<and> 5.0 \<le> p5 r"
    "normalize_metric m = ''sdNN'' \<longrightarrow>
            p5 r = max 0.1 (mean + norm_ppf st 0.05 * sd) \<and> 0.1 \<le> p5 r"
    using h(6) by (simp_all add: range_floor_def)
  from h(1-5,7) f k show ?thesis by blast
qed

theorem normative_range_floors_only_lower_bound_witness:
  "valid_key 40 ''female'' ''RMSSD'' \<and> valid_key 30 ''female'' ''hf''
   \<and> get_normative_range sample_stats 40 ''female'' ''RMSSD''
       = Inr (Some \<lparr>range_metric = ''RMSSD'', p5 = 5.8605, p95 = 55.5395\<rparr>)
   \<and> get_normative_range sample_stats 30 ''female'' ''hf''
       = Inr (Some \<lparr>range_metric = ''hf'', p5 = 5, p95 = 435.715\<rparr>)"
proof -
  have v: "valid_key 40 ''female'' ''RMSSD''" "valid_key 30 ''female'' ''hf''"
    by (simp_all add: valid_key_def lower_def lower_char_def)
  have k: "age_group 40 = Some ''35-44''" "age_group 30 = Some ''25-34''"
    "lower ''female'' = ''female''"
    "normalize_metric ''RMSSD'' = ''RMSSD''" "normalize_metric ''hf'' = ''HF''"
    by (simp_all add: age_group_def lower_def lower_char_def normalize_metric_def
        metric_mapping_def)
  have z: "norm_ppf sample_stats 0.05 = - 1.645" "norm_ppf sample_stats 0.95 = 1.645"
    by (simp_all add: sample_stats_def)
  from normative_range_floors_only_lower_bound [OF v(1), of sample_stats]
  obtain d mean sd r where
    h: "lookup_entry ''female'' ''35-44'' ''RMSSD'' = Inr d"
      "getitem d ''mean'' = Inr mean" "getitem d ''sd'' = Inr sd"
      "get_normative_range sample_stats 40 ''female'' ''RMSSD'' = Inr (Some r)"
      "p95 r = mean + 1.645 * sd" "p5 r = max 1.0 (mean + - 1.645 * sd)"
    unfolding k z by auto
  from h(1-3) have e: "mean = 30.7" "sd = 15.1"
    by (auto simp: table_rows(3) getitem_def)
  from normative_range_floors_only_lower_bound [OF v(2), of sample_stats]
  obtain d' mean' sd' r' where
    h': "lookup_entry ''female'' ''25-34'' ''HF'' = Inr d'"
      "getitem d' ''mean'' = Inr mean'" "getitem d' ''sd'' = Inr sd'"
      "get_normative_range sample_stats 30 ''female'' ''hf'' = Inr (Some r')"
      "p95 r' = mean' + 1.645 * sd'" "p5 r' = max 5.0 (mean' + - 1.645 * sd')"
    unfolding k z by auto
  from h'(1-3) have e': "mean' = 161" "sd' = 167"
    by (auto simp: table_rows(2) getitem_def)
  have m1: "range_metric r = ''RMSSD''" and m2: "range_metric r' = ''hf''"
    using h(4) h'(4) range_ops_valid [OF v(1), of sample_stats]
      range_ops_valid [OF v(2), of sample_stats] by auto
  have "r = \<lparr>range_metric = ''RMSSD'', p5 = 5.8605, p95 = 55.5395\<rparr>"
    using h(5,6) m1 unfolding e by (cases r) simp
  moreover have "r' = \<lparr>range_metric = ''hf'', p5 = 5, p95 = 435.715\<rparr>"
    using h'(5,6) m2 unfolding e' by (cases r') simp
  ultimately show ?thesis using v h(4) h'(4) by simp
qed

text \<open>
  C2.  On every valid key \<open>get_5th_percentile_value\<close> returns exactly
  \<open>max 0 (mean + norm_ppf 0.05 * sd)\<close>, which is not negative; it differs from the
  \<open>p5\<close> of \<open>get_normative_range\<close> at the same key exactly when the unfloored value
  is below the floor of the metric, and it does differ for females of 25 to 34 and HF
  (0 against 5.0) whenever the 5 percent quantile is at most \<open>-1\<close>.
\<close>
theorem fifth_percentile_value_floor_zero:
  assumes "valid_key age gender m"
  shows "\<exists>grp d mean sd x r.
      age_group age = Some grp
      \<and> lookup_entry (lower gender) grp (normalize_metric m) = Inr d
      \<and> getitem d ''mean'' = Inr mean \<and> getitem d ''sd'' = Inr sd
      \<and> get_5th_percentile_value st age gender m = Inr (Some x)
      \<and> x = max 0 (mean + norm_ppf st 0.05 * sd)
      \<and> 0 \<le> x
      \<and> get_normative_range st age gender m = Inr (Some r)
      \<and> (x \<noteq> p5 r \<longleftrightarrow> mean + norm_ppf st 0.05 * sd < range_floor (normalize_metric m))
      \<and> (age \<le> 34 \<and> lower gender = ''female'' \<and> normalize_metric m = ''HF''
           \<and> norm_ppf st 0.05 \<le> - 1 \<longrightarrow> x = 0 \<and> p5 r = 5)"
proof -
  from range_ops_valid [OF assms, of st]
  obtain grp d mean sd r where h: "age_group age = Some grp"
    "lookup_entry (lower gender) grp (normalize_metric m) = Inr d"
    "getitem d ''mean'' = Inr mean" "getitem d ''sd'' = Inr sd"
    "get_5th_percentile_value st age gender m
       = Inr (Some (max 0 (mean + norm_ppf st 0.05 * sd)))"
    "get_normative_range st age gender m = Inr (Some r)"
    "p5 r = max (range_floor (normalize_metric m)) (mean + norm_ppf st 0.05 * sd)"
    by fastforce
  define x where "x = max 0 (mean + norm_ppf st 0.05 * sd)"
  have fl: "0 < range_floor (normalize_metric m)" by (simp add: range_floor_def)
  have d: "x \<noteq> p5 r \<longleftrightarrow> mean + norm_ppf st 0.05 * sd < range_floor (normalize_metric m)"
    using fl unfolding x_def h(7) by (auto simp: max_def)
  have ex: "x = 0 \<and> p5 r = 5"
    if "age \<le> 34" "lower gender = ''female''" "normalize_metric m = ''HF''"
      "norm_ppf st 0.05 \<le> - 1"
  proof -
    from assms have "25 \<le> age" by (simp add: valid_key_def)
    from age_group_bands(1) [OF this that(1)] h(1) have "grp = ''25-34''" by simp
    with h(2-4) that(2,3) have e: "mean = 161" "sd = 167"
      by (auto simp: table_rows(2) getitem_def)
    from that(4) have "norm_ppf st 0.05 * 167 \<le> - 167" by simp
    then have "161 + norm_ppf st 0.05 * 167 \<le> 0" by simp
    then show ?thesis
      unfolding x_def h(7) e by (simp add: that(3) range_floor_def max_def)
  qed
  from h(1-6) d ex show ?thesis
    unfolding x_def [symmetric] by (intro exI [of _ grp] exI [of _ d] exI [of _ mean]
        exI [of _ sd] exI [of _ x] exI [of _ r]) (simp add: x_def)
qed

theorem fifth_percentile_value_floor_zero_witness:
  "valid_key 30 ''female'' ''HF'' \<and> norm_ppf sample_stats 0.05 \<le> - 1
   \<and> get_5th_percentile_value sample_stats 30 ''female'' ''HF'' = Inr (Some 0)
   \<and> (\<exists>r. get_normative_range sample_stats 30 ''female'' ''HF'' = Inr (Some r) \<and> p5 r = 5)"
proof -
  have v: "valid_key 30 ''female'' ''HF''"
    by (simp add: valid_key_def lower_def lower_char_def)
  have k: "lower ''female'' = ''female''" "normalize_metric ''HF'' = ''HF''"
    by (simp_all add: lower_def lower_char_def normalize_metric_def metric_mapping_def)
  have z: "norm_ppf sample_stats 0.05 \<le> - 1"
    by (simp add: sample_stats_def)
  from fifth_percentile_value_floor_zero [OF v, of sample_stats]
  obtain x r where "get_5th_percentile_value sample_stats 30 ''female'' ''HF'' = Inr (Some x)"
    "get_normative_range sample_stats 30 ''female'' ''HF'' = Inr (Some r)"
    "(30::int) \<le> 34 \<and> lower ''female'' = ''female'' \<and> normalize_metric ''HF'' = ''HF''
       \<and> norm_ppf sample_stats 0.05 \<le> - 1 \<longrightarrow> x = 0 \<and> p5 r = 5"
    by blast
  with v k z show ?thesis by simp
qed

end
